theory Spec2Isabelle
  imports Complex_Main "HOL-Library.Sublist"
begin

section \<open>JavaScript numbers\<close>

text \<open>
  The exporter (\<^verbatim>\<open>src/main/exporters/davinci.ts\<close>) computes with JavaScript numbers.
  They are modelled as exact real numbers together with the three non-finite values.
  The idealisation: finite arithmetic is exact (no rounding to 53 bits, no overflow),
  and zero has no sign, so a division by zero takes the sign of the numerator.
\<close>

datatype jsnum = Fin real | NaN | PInf | NInf

fun js_neg :: "jsnum \<Rightarrow> jsnum" where
  "js_neg (Fin a) = Fin (- a)"
| "js_neg NaN = NaN"
| "js_neg PInf = NInf"
| "js_neg NInf = PInf"

text \<open>\<^verbatim>\<open>a + b\<close>\<close>

fun js_add :: "jsnum \<Rightarrow> jsnum \<Rightarrow> jsnum" where
  "js_add (Fin a) (Fin b) = Fin (a + b)"
| "js_add NaN _ = NaN"
| "js_add _ NaN = NaN"
| "js_add PInf NInf = NaN"
| "js_add NInf PInf = NaN"
| "js_add PInf _ = PInf"
| "js_add _ PInf = PInf"
| "js_add NInf _ = NInf"
| "js_add _ NInf = NInf"

text \<open>\<^verbatim>\<open>a - b\<close>\<close>

definition js_sub :: "jsnum \<Rightarrow> jsnum \<Rightarrow> jsnum" where
  "js_sub a b = js_add a (js_neg b)"

text \<open>The infinity with the sign of a non-zero number.\<close>

definition inf_of_sign :: "real \<Rightarrow> jsnum" where
  "inf_of_sign a = (if a = 0 then NaN else if 0 < a then PInf else NInf)"

text \<open>\<^verbatim>\<open>a * b\<close>\<close>

fun js_mul :: "jsnum \<Rightarrow> jsnum \<Rightarrow> jsnum" where
  "js_mul (Fin a) (Fin b) = Fin (a * b)"
| "js_mul NaN _ = NaN"
| "js_mul _ NaN = NaN"
| "js_mul (Fin a) PInf = inf_of_sign a"
| "js_mul (Fin a) NInf = inf_of_sign (- a)"
| "js_mul PInf (Fin b) = inf_of_sign b"
| "js_mul NInf (Fin b) = inf_of_sign (- b)"
| "js_mul PInf PInf = PInf"
| "js_mul NInf NInf = PInf"
| "js_mul PInf NInf = NInf"
| "js_mul NInf PInf = NInf"

text \<open>\<^verbatim>\<open>a / b\<close>: a finite number over zero is an infinity, zero over zero is NaN.\<close>

fun js_div :: "jsnum \<Rightarrow> jsnum \<Rightarrow> jsnum" where
  "js_div (Fin a) (Fin b) = (if b = 0 then inf_of_sign a else Fin (a / b))"
| "js_div NaN _ = NaN"
| "js_div _ NaN = NaN"
| "js_div (Fin a) PInf = Fin 0"
| "js_div (Fin a) NInf = Fin 0"
| "js_div PInf (Fin b) = (if 0 \<le> b then PInf else NInf)"
| "js_div NInf (Fin b) = (if 0 \<le> b then NInf else PInf)"
| "js_div PInf PInf = NaN"
| "js_div PInf NInf = NaN"
| "js_div NInf PInf = NaN"
| "js_div NInf NInf = NaN"

text \<open>Rounding towards zero, as the remainder operator does with the quotient.\<close>

definition trunc :: "real \<Rightarrow> int" where
  "trunc q = (if 0 \<le> q then \<lfloor>q\<rfloor> else \<lceil>q\<rceil>)"

text \<open>\<^verbatim>\<open>a % b\<close>: the remainder has the sign of the dividend.\<close>

fun js_rem :: "jsnum \<Rightarrow> jsnum \<Rightarrow> jsnum" where
  "js_rem (Fin a) (Fin b) = (if b = 0 then NaN else Fin (a - b * of_int (trunc (a / b))))"
| "js_rem NaN _ = NaN"
| "js_rem _ NaN = NaN"
| "js_rem PInf _ = NaN"
| "js_rem NInf _ = NaN"
| "js_rem (Fin a) PInf = Fin a"
| "js_rem (Fin a) NInf = Fin a"

text \<open>\<^verbatim>\<open>Math.floor\<close>\<close>

fun js_floor :: "jsnum \<Rightarrow> jsnum" where
  "js_floor (Fin a) = Fin (of_int \<lfloor>a\<rfloor>)"
| "js_floor x = x"

text \<open>\<^verbatim>\<open>Math.round\<close>: the nearest integer, a tie going up.\<close>

fun js_round :: "jsnum \<Rightarrow> jsnum" where
  "js_round (Fin a) = Fin (of_int \<lfloor>a + 1 / 2\<rfloor>)"
| "js_round x = x"

text \<open>Truthiness of a number in \<^verbatim>\<open>||\<close>: zero and NaN are falsy.\<close>

fun truthy_num :: "jsnum \<Rightarrow> bool" where
  "truthy_num (Fin a) = (a \<noteq> 0)"
| "truthy_num NaN = False"
| "truthy_num PInf = True"
| "truthy_num NInf = True"

section \<open>Strings of digits\<close>

definition digit_char :: "nat \<Rightarrow> char" where
  "digit_char d = ''0123456789'' ! d"

definition is_digit :: "char \<Rightarrow> bool" where
  "is_digit c = (c \<in> set ''0123456789'')"

definition digit_val :: "char \<Rightarrow> nat" where
  "digit_val c = of_char c - 48"

text \<open>The decimal digits of a natural number, without leading zeros.\<close>

fun show_nat :: "nat \<Rightarrow> string" where
  "show_nat n = (if n < 10 then [digit_char n] else show_nat (n div 10) @ [digit_char (n mod 10)])"

declare show_nat.simps [simp del]


text \<open>The value of a string of decimal digits; the empty string has value 0.\<close>

definition dec_val :: "string \<Rightarrow> nat" where
  "dec_val s = foldl (\<lambda>a c. 10 * a + digit_val c) 0 s"

text \<open>
  The digits after the decimal point of a fraction \<open>0 \<le> r < 1\<close>, by long division,
  stopping when the remainder is zero or after the given number of digits.
\<close>

fun frac_digits :: "nat \<Rightarrow> real \<Rightarrow> string" where
  "frac_digits 0 r = []"
| "frac_digits (Suc k) r =
     (if r = 0 then []
      else digit_char (nat \<lfloor>r * 10\<rfloor>) # frac_digits k (r * 10 - of_int \<lfloor>r * 10\<rfloor>))"

text \<open>
  \<^verbatim>\<open>Number.prototype.toString\<close>. An integer prints as its decimal digits, the way the
  source uses it on every result of \<^verbatim>\<open>Math.floor\<close>; a number with a short terminating
  decimal expansion (the rounded frame rate of the format name) prints that expansion.
  Exponent notation (magnitudes from \<open>10\<^sup>2\<^sup>1\<close> on, or below \<open>10\<^sup>-\<^sup>6\<close>) and the shortest
  round-trip digits of a non-terminating expansion are outside the idealisation.
\<close>

fun js_toString :: "jsnum \<Rightarrow> string" where
  "js_toString NaN = ''NaN''"
| "js_toString PInf = ''Infinity''"
| "js_toString NInf = ''-Infinity''"
| "js_toString (Fin a) =
     (let m = \<bar>a\<bar>; ip = \<lfloor>m\<rfloor>; fr = frac_digits 17 (m - of_int ip)
      in (if a < 0 then ''-'' else '''') @ show_nat (nat ip) @
         (if fr = [] then [] else CHR ''.'' # fr))"

text \<open>\<^verbatim>\<open>s.padStart(n, '0')\<close>: zeros in front up to length \<open>n\<close>, a longer string unchanged.\<close>

definition padStart :: "nat \<Rightarrow> string \<Rightarrow> string" where
  "padStart n s = replicate (n - length s) CHR ''0'' @ s"

text \<open>
  \<^verbatim>\<open>s.split(/[:;]/)\<close>, and \<^verbatim>\<open>s.split('/')\<close>: the pieces between the separator
  characters; a string without separator is one piece, also the empty string.
\<close>

fun split_on :: "(char \<Rightarrow> bool) \<Rightarrow> string \<Rightarrow> string list" where
  "split_on sep [] = [[]]"
| "split_on sep (c # cs) =
     (if sep c then [] # split_on sep cs
      else (case split_on sep cs of p # ps \<Rightarrow> (c # p) # ps | [] \<Rightarrow> [[c]]))"

text \<open>
  \<^verbatim>\<open>Number(s)\<close> on a string. A string of decimal digits is its value, the empty string
  is 0. What JavaScript makes of any other string (white space, a sign, a fraction, an
  exponent, \<^verbatim>\<open>0x\<close>, text) is the parameter \<open>other\<close>: the theorems hold for each choice.
\<close>

definition Number_str :: "(string \<Rightarrow> jsnum) \<Rightarrow> string \<Rightarrow> jsnum" where
  "Number_str other s = (if list_all is_digit s then Fin (of_nat (dec_val s)) else other s)"

text \<open>
  \<^verbatim>\<open>parseInt(s, 10)\<close> on the strings of the frame-duration table, which start with a
  digit: the value of the leading digits, NaN when there is none. (Leading white space
  and a sign, which \<^verbatim>\<open>parseInt\<close> also accepts, do not occur in the table.)
\<close>

definition parseInt10 :: "string \<Rightarrow> jsnum" where
  "parseInt10 s = (let ds = takeWhile is_digit s in if ds = [] then NaN else Fin (of_nat (dec_val ds)))"

section \<open>Timecode arithmetic\<close>

text \<open>\<^verbatim>\<open>framesToTimecode(frames, frameRate)\<close>\<close>

definition framesToTimecode :: "jsnum \<Rightarrow> jsnum \<Rightarrow> string" where
  "framesToTimecode frames frameRate =
     (let fps = js_round frameRate;
          hours = js_floor (js_div frames (js_mul (Fin 3600) fps));
          minutes = js_floor (js_div (js_rem frames (js_mul (Fin 3600) fps)) (js_mul (Fin 60) fps));
          seconds = js_floor (js_div (js_rem (js_rem frames (js_mul (Fin 3600) fps)) (js_mul (Fin 60) fps)) fps);
          frs = js_floor (js_rem (js_rem (js_rem frames (js_mul (Fin 3600) fps)) (js_mul (Fin 60) fps)) fps)
      in padStart 2 (js_toString hours) @ '':'' @ padStart 2 (js_toString minutes) @ '':'' @
         padStart 2 (js_toString seconds) @ '':'' @ padStart 2 (js_toString frs))"

text \<open>\<^verbatim>\<open>framesToSeconds(frames, frameRate)\<close>: one decimal place, the raw frame rate.\<close>

definition framesToSeconds :: "jsnum \<Rightarrow> jsnum \<Rightarrow> jsnum" where
  "framesToSeconds frames frameRate =
     js_div (js_round (js_mul (js_div frames frameRate) (Fin 10))) (Fin 10)"

text \<open>
  The \<open>i\<close>-th variable of an array destructuring: a missing element is
  \<^verbatim>\<open>undefined\<close>, which every arithmetic operator turns into NaN.
\<close>

definition nth_num :: "jsnum list \<Rightarrow> nat \<Rightarrow> jsnum" where
  "nth_num xs i = (if i < length xs then xs ! i else NaN)"

text \<open>\<^verbatim>\<open>timecodeToFrames(timecode, frameRate)\<close> on a string.\<close>

definition timecodeToFrames :: "(string \<Rightarrow> jsnum) \<Rightarrow> string \<Rightarrow> jsnum \<Rightarrow> jsnum" where
  "timecodeToFrames other timecode frameRate =
     (let fields = map (Number_str other) (split_on (\<lambda>c. c = CHR '':'' \<or> c = CHR '';'') timecode);
          hours = nth_num fields 0; minutes = nth_num fields 1;
          seconds = nth_num fields 2; frames = nth_num fields 3
      in js_floor (js_add
           (js_mul (js_add (js_add (js_mul hours (Fin 3600)) (js_mul minutes (Fin 60))) seconds)
                   (js_round frameRate))
           frames))"

section \<open>Rational frame durations\<close>

text \<open>
  \<^verbatim>\<open>frameRateToFrameDuration(frameRate)\<close>: a lookup in an object literal whose keys are
  the eight supported rates, with \<^verbatim>\<open>|| '1001/24000s'\<close> for a key that is not there.
\<close>

definition frameRateToFrameDuration :: "jsnum \<Rightarrow> string" where
  "frameRateToFrameDuration frameRate =
     (if frameRate = Fin (23976 / 1000) then ''1001/24000s''
      else if frameRate = Fin 24 then ''100/2400s''
      else if frameRate = Fin 25 then ''1/25s''
      else if frameRate = Fin (2997 / 100) then ''1001/30000s''
      else if frameRate = Fin 30 then ''1/30s''
      else if frameRate = Fin 50 then ''1/50s''
      else if frameRate = Fin (5994 / 100) then ''1001/60000s''
      else if frameRate = Fin 60 then ''1/60s''
      else ''1001/24000s'')"

text \<open>The keys of that table: the supported frame rates.\<close>

definition supported_rates :: "real list" where
  "supported_rates = [23976 / 1000, 24, 25, 2997 / 100, 30, 50, 5994 / 100, 60]"

text \<open>
  \<^verbatim>\<open>frameRateToFrameDuration(frameRate).split('/').map((n) => parseInt(n, 10))\<close>, the
  pair \<^verbatim>\<open>[numerator, denominator]\<close> that \<^verbatim>\<open>generateFCPXML\<close> destructures.
\<close>

definition frame_duration_pair :: "jsnum \<Rightarrow> jsnum \<times> jsnum" where
  "frame_duration_pair frameRate =
     (let parts = map parseInt10 (split_on (\<lambda>c. c = CHR ''/'') (frameRateToFrameDuration frameRate))
      in (nth_num parts 0, nth_num parts 1))"

section \<open>Clips and the two generators\<close>

text \<open>
  \<^verbatim>\<open>Clip\<close> of \<^verbatim>\<open>shared/types\<close>, with its fields \<^verbatim>\<open>start\<close> and \<^verbatim>\<open>end\<close> in seconds;
  \<^verbatim>\<open>VideoInfo\<close> with the two fields the exporter reads.
\<close>

record clip =
  clip_start :: jsnum
  clip_end :: jsnum

record videoInfo =
  path :: string
  duration :: jsnum

subsection \<open>Project XML\<close>

text \<open>
  One \<^verbatim>\<open>asset-clip\<close> of the spine. The source writes the three numbers into the
  attributes \<^verbatim>\<open>offset\<close>, \<^verbatim>\<open>duration\<close> and \<^verbatim>\<open>start\<close> as
  \<^verbatim>\<open>`${n}/${denominator}s`\<close>; the record keeps the numbers \<open>n\<close>. The attributes
  \<^verbatim>\<open>enabled\<close>, \<^verbatim>\<open>ref\<close> and \<^verbatim>\<open>lane\<close> are constants.
\<close>

record asset_clip =
  ac_offset :: jsnum
  ac_duration :: jsnum
  ac_name :: string
  ac_start :: jsnum

text \<open>The document tree that \<^verbatim>\<open>generateFCPXML\<close> builds, without its constant attributes.\<close>

record fcpxml =
  format_name :: string
  format_frameDuration :: string
  asset_name :: string
  asset_start :: jsnum
  asset_duration :: jsnum
  asset_src :: string
  event_name :: string
  project_name :: string
  denominator :: jsnum
  spine :: "asset_clip list"

text \<open>
  The loop \<^verbatim>\<open>clips.forEach\<close> of \<^verbatim>\<open>generateFCPXML\<close>: \<open>offset\<close> is the variable
  \<^verbatim>\<open>offset\<close> before the clip, the result the entries pushed from there on.
\<close>

fun spine_loop :: "jsnum \<Rightarrow> jsnum \<Rightarrow> jsnum \<Rightarrow> string \<Rightarrow> jsnum \<Rightarrow> clip list \<Rightarrow> asset_clip list" where
  "spine_loop numerator frameRate timecodeInSeconds sourceClipName offset [] = []"
| "spine_loop numerator frameRate timecodeInSeconds sourceClipName offset (c # clips) =
     (let start = js_mul numerator (js_floor (js_mul (js_add timecodeInSeconds (clip_start c)) frameRate));
          end = js_mul numerator (js_floor (js_mul (js_add timecodeInSeconds (clip_end c)) frameRate));
          duration = js_sub end start
      in \<lparr>ac_offset = offset, ac_duration = duration, ac_name = sourceClipName, ac_start = start\<rparr> #
         spine_loop numerator frameRate timecodeInSeconds sourceClipName (js_add offset duration) clips)"

text \<open>\<^verbatim>\<open>s.replace('.', '')\<close>: the first point is removed.\<close>

definition remove_point :: "string \<Rightarrow> string" where
  "remove_point s = remove1 CHR ''.'' s"

text \<open>
  \<^verbatim>\<open>generateFCPXML\<close>, up to the call of \<^verbatim>\<open>js2xml\<close>, which belongs to the library
  \<^verbatim>\<open>xml-js\<close>.
\<close>

definition generateFCPXML :: "string \<Rightarrow> string \<Rightarrow> jsnum \<Rightarrow> clip list \<Rightarrow> jsnum \<Rightarrow> jsnum \<Rightarrow> fcpxml" where
  "generateFCPXML pathToSource sourceClipName sourceDuration clips frameRate timecodeInSeconds =
     (let (numerator, denom) = frame_duration_pair frameRate;
          assetStart = js_mul numerator (js_floor (js_mul timecodeInSeconds frameRate));
          assetDuration = js_mul numerator (js_floor (js_mul sourceDuration frameRate))
      in \<lparr>format_name = ''FFVideoFormat3840x2160p'' @
             remove_point (js_toString (js_div (js_round (js_mul frameRate (Fin 100))) (Fin 100))),
          format_frameDuration = frameRateToFrameDuration frameRate,
          asset_name = sourceClipName,
          asset_start = assetStart,
          asset_duration = assetDuration,
          asset_src = ''file://'' @ pathToSource,
          event_name = ''TurboCut '' @ sourceClipName,
          project_name = ''TurboCut '' @ sourceClipName,
          denominator = denom,
          spine = spine_loop numerator frameRate timecodeInSeconds sourceClipName (Fin 0) clips\<rparr>)"

subsection \<open>Edit decision list\<close>

text \<open>The four frame numbers of one cut record, and its edit number \<^verbatim>\<open>index + 1\<close>.\<close>

record edl_record =
  edit_number :: nat
  srcStartFrames :: jsnum
  srcEndFrames :: jsnum
  recStartFrames :: jsnum
  recEndFrames :: jsnum

text \<open>The body of the callback of \<^verbatim>\<open>clips.forEach\<close> in \<^verbatim>\<open>generateEDL\<close>, up to the text.\<close>

definition edl_frames :: "jsnum \<Rightarrow> jsnum \<Rightarrow> jsnum \<Rightarrow> nat \<Rightarrow> clip \<Rightarrow> edl_record" where
  "edl_frames frameRate timecodeInSeconds recordStartFrames index c =
     \<lparr>edit_number = index + 1,
      srcStartFrames = js_floor (js_mul (js_add (clip_start c) timecodeInSeconds) frameRate),
      srcEndFrames = js_floor (js_mul (js_add (clip_end c) timecodeInSeconds) frameRate),
      recStartFrames = recordStartFrames,
      recEndFrames = js_floor (js_add recordStartFrames (js_mul (js_sub (clip_end c) (clip_start c)) frameRate))\<rparr>"

text \<open>The two lines and the blank line that the callback appends for a record.\<close>

definition edl_text :: "string \<Rightarrow> jsnum \<Rightarrow> edl_record \<Rightarrow> string" where
  "edl_text sourceClipName frameRate r =
     padStart 3 (show_nat (edit_number r)) @ ''  AX       V     C        '' @
     framesToTimecode (srcStartFrames r) frameRate @ '' '' @
     framesToTimecode (srcEndFrames r) frameRate @ '' '' @
     framesToTimecode (recStartFrames r) frameRate @ '' '' @
     framesToTimecode (recEndFrames r) frameRate @ [CHR 0x0A] @
     ''* FROM CLIP NAME: '' @ sourceClipName @ [CHR 0x0A, CHR 0x0A]"

text \<open>
  The loop of \<^verbatim>\<open>generateEDL\<close>: \<open>recordStartFrames\<close> and \<open>index\<close> are the state before
  the clip, the result is the text appended from there on.
\<close>

fun edl_loop :: "string \<Rightarrow> jsnum \<Rightarrow> jsnum \<Rightarrow> jsnum \<Rightarrow> nat \<Rightarrow> clip list \<Rightarrow> string" where
  "edl_loop sourceClipName frameRate timecodeInSeconds recordStartFrames index [] = []"
| "edl_loop sourceClipName frameRate timecodeInSeconds recordStartFrames index (c # clips) =
     (let r = edl_frames frameRate timecodeInSeconds recordStartFrames index c
      in edl_text sourceClipName frameRate r @
         edl_loop sourceClipName frameRate timecodeInSeconds (recEndFrames r) (index + 1) clips)"

text \<open>\<^verbatim>\<open>generateEDL(title, sourceClipName, clips, frameRate, timecodeInSeconds)\<close>\<close>

definition generateEDL :: "string \<Rightarrow> string \<Rightarrow> clip list \<Rightarrow> jsnum \<Rightarrow> jsnum \<Rightarrow> string" where
  "generateEDL title sourceClipName clips frameRate timecodeInSeconds =
     ''TITLE: '' @ title @ [CHR 0x0A] @ ''FCM: NON-DROP FRAME'' @ [CHR 0x0A, CHR 0x0A] @
     edl_loop sourceClipName frameRate timecodeInSeconds (Fin 0) 0 clips"

text \<open>
  The records of the loop without their text: what \<open>edl_loop\<close> computes for each clip,
  in order. It is a reading of the loop, related to it by a lemma below.
\<close>

fun edl_records :: "jsnum \<Rightarrow> jsnum \<Rightarrow> jsnum \<Rightarrow> nat \<Rightarrow> clip list \<Rightarrow> edl_record list" where
  "edl_records frameRate timecodeInSeconds recordStartFrames index [] = []"
| "edl_records frameRate timecodeInSeconds recordStartFrames index (c # clips) =
     (let r = edl_frames frameRate timecodeInSeconds recordStartFrames index c
      in r # edl_records frameRate timecodeInSeconds (recEndFrames r) (index + 1) clips)"

section \<open>Start timecode of the source\<close>

text \<open>
  What \<^verbatim>\<open>ffprobe\<close> reports, as far as \<^verbatim>\<open>getStartTimecode\<close> reads it: of each stream
  its \<^verbatim>\<open>codec_type\<close>, its \<^verbatim>\<open>tags?.timecode\<close> and its \<^verbatim>\<open>start_time\<close>, and of the
  format record its \<^verbatim>\<open>tags?.timecode\<close>. \<open>None\<close> is \<^verbatim>\<open>undefined\<close>. A tag is text, a start
  time is a number.
\<close>

record probe_stream =
  codec_type :: "string option"
  stream_timecode :: "string option"
  start_time :: "jsnum option"

record probe_data =
  streams :: "probe_stream list"
  format_timecode :: "string option"

text \<open>The value of the chain of \<^verbatim>\<open>||\<close>: a tag or the default (text), or the start time.\<close>

datatype jsval = Str string | Num jsnum

text \<open>\<^verbatim>\<open>a || rest\<close> for an optional string and for an optional number.\<close>

fun or_str :: "string option \<Rightarrow> jsval \<Rightarrow> jsval" where
  "or_str None rest = rest"
| "or_str (Some s) rest = (if s = [] then rest else Str s)"

fun or_num :: "jsnum option \<Rightarrow> jsval \<Rightarrow> jsval" where
  "or_num None rest = rest"
| "or_num (Some n) rest = (if truthy_num n then Num n else rest)"

text \<open>\<^verbatim>\<open>x?.f\<close> on an optional record.\<close>

definition opt_field :: "'a option \<Rightarrow> ('a \<Rightarrow> 'b option) \<Rightarrow> 'b option" where
  "opt_field x f = (case x of None \<Rightarrow> None | Some y \<Rightarrow> f y)"

text \<open>How an export can fail: each is a rejected promise in the source.\<close>

datatype export_error =
    ProbeFailed
  | SplitNotAFunction
  | DirectoryFailed
  | WriteFailed

text \<open>
  \<^verbatim>\<open>getStartTimecode\<close> after the probe has resolved with \<open>probeData\<close>: the two
  \<^verbatim>\<open>find\<close> calls take the first video stream and the first data stream.
\<close>

definition resolveStartTimecode :: "probe_data \<Rightarrow> jsval" where
  "resolveStartTimecode probeData =
     (let videoStream = find (\<lambda>stream. codec_type stream = Some ''video'') (streams probeData);
          qtStream = find (\<lambda>stream. codec_type stream = Some ''data'') (streams probeData);
          startTimecodeFormat = format_timecode probeData;
          startTimecodeStream = opt_field videoStream stream_timecode;
          startTimecodeQt = opt_field qtStream stream_timecode;
          startTimecodeStreamStart = opt_field videoStream start_time
      in or_str startTimecodeFormat
           (or_str startTimecodeStream
             (or_str startTimecodeQt
               (or_num startTimecodeStreamStart (Str ''00:00:00:00'')))))"

section \<open>The export entry points and their collaborators\<close>

text \<open>The answer of \<^verbatim>\<open>dialog.showSaveDialog\<close>.\<close>

record save_dialog_result =
  canceled :: bool
  filePath :: "string option"

text \<open>
  The collaborators of one export: what the user answers in the save dialog, what the
  probe of a file gives (\<open>Inl\<close>: it fails), whether \<^verbatim>\<open>mkdir\<close> fails and with which
  \<^verbatim>\<open>error.code\<close>, whether \<^verbatim>\<open>writeFile\<close> succeeds; and three library functions that are
  not part of the repository: \<^verbatim>\<open>Number\<close> outside the digit strings, \<^verbatim>\<open>path.join\<close>
  and the serialiser \<^verbatim>\<open>js2xml\<close>.
\<close>

record env =
  dialog_answer :: save_dialog_result
  ffprobe :: "string \<Rightarrow> unit + probe_data"
  mkdir_error :: "string option"
  writeFile_ok :: bool
  number_other :: "string \<Rightarrow> jsnum"
  path_join :: "string \<Rightarrow> string \<Rightarrow> string"
  js2xml :: "fcpxml \<Rightarrow> string"

text \<open>The calls an export makes to its collaborators, in order.\<close>

datatype call =
    ShowSaveDialog string string string string
  | Ffprobe string
  | Mkdir string
  | WriteFile string string

text \<open>\<^verbatim>\<open>getStartTimecode(filePath)\<close>: the probe, then the resolution.\<close>

definition getStartTimecode :: "env \<Rightarrow> string \<Rightarrow> export_error + jsval" where
  "getStartTimecode e filePath' =
     (case ffprobe e filePath' of
        Inl _ \<Rightarrow> Inl ProbeFailed
      | Inr probeData \<Rightarrow> Inr (resolveStartTimecode probeData))"

text \<open>\<^verbatim>\<open>videoInfo.path.split('/').pop()\<close>: the last piece of the path.\<close>

definition basename :: "string \<Rightarrow> string" where
  "basename p = last (split_on (\<lambda>c. c = CHR ''/'') p)"

text \<open>
  The lines of both entry points between the dialog and the generator: the start
  timecode of the source as seconds. A start timecode that is a number (a start time
  won the chain) has no method \<^verbatim>\<open>split\<close>, and \<^verbatim>\<open>timecodeToFrames\<close> throws.
\<close>

definition startTimecodeInSeconds :: "env \<Rightarrow> string \<Rightarrow> jsnum \<Rightarrow> export_error + jsnum" where
  "startTimecodeInSeconds e p frameRate =
     (case getStartTimecode e p of
        Inl err \<Rightarrow> Inl err
      | Inr (Num _) \<Rightarrow> Inl SplitNotAFunction
      | Inr (Str startTimecode) \<Rightarrow>
          (let startFrame = timecodeToFrames (number_other e) startTimecode frameRate
           in Inr (framesToSeconds startFrame frameRate)))"

text \<open>
  \<^verbatim>\<open>createFCPXML(title, clips, videoInfo, clipName, frameRate)\<close>: the calls made and
  the outcome, \<open>Inr b\<close> for a promise resolved with \<open>b\<close>, \<open>Inl\<close> for a rejected one.
\<close>

definition createFCPXML ::
  "env \<Rightarrow> string \<Rightarrow> clip list \<Rightarrow> videoInfo \<Rightarrow> string \<Rightarrow> jsnum \<Rightarrow> call list \<times> (export_error + bool)" where
  "createFCPXML e title clips vi clipName frameRate =
     (let shown = ShowSaveDialog title (basename (path vi) @ ''.fcpxmld'') ''FCPXML 1.10'' ''fcpxmld'';
          result = dialog_answer e
      in case (canceled result, filePath result) of
           (True, _) \<Rightarrow> ([shown], Inr False)
         | (False, None) \<Rightarrow> ([shown], Inr False)
         | (False, Some dest) \<Rightarrow>
             (case startTimecodeInSeconds e (path vi) frameRate of
                Inl err \<Rightarrow> ([shown, Ffprobe (path vi)], Inl err)
              | Inr secs \<Rightarrow>
                  (let xml = js2xml e (generateFCPXML (path vi) clipName (duration vi) clips frameRate secs);
                       calls = [shown, Ffprobe (path vi), Mkdir dest]
                   in if mkdir_error e \<noteq> None \<and> mkdir_error e \<noteq> Some ''EEXIST''
                      then (calls, Inl DirectoryFailed)
                      else if writeFile_ok e
                      then (calls @ [WriteFile (path_join e dest ''Info.fcpxml'') xml], Inr True)
                      else (calls @ [WriteFile (path_join e dest ''Info.fcpxml'') xml], Inl WriteFailed))))"

text \<open>\<^verbatim>\<open>createEDL(title, clips, videoInfo, clipName, frameRate)\<close>\<close>

definition createEDL ::
  "env \<Rightarrow> string \<Rightarrow> clip list \<Rightarrow> videoInfo \<Rightarrow> string \<Rightarrow> jsnum \<Rightarrow> call list \<times> (export_error + bool)" where
  "createEDL e title clips vi clipName frameRate =
     (let shown = ShowSaveDialog title (basename (path vi) @ ''.edl'') ''EDL'' ''edl'';
          result = dialog_answer e
      in case (canceled result, filePath result) of
           (True, _) \<Rightarrow> ([shown], Inr False)
         | (False, None) \<Rightarrow> ([shown], Inr False)
         | (False, Some dest) \<Rightarrow>
             (case startTimecodeInSeconds e (path vi) frameRate of
                Inl err \<Rightarrow> ([shown, Ffprobe (path vi)], Inl err)
              | Inr secs \<Rightarrow>
                  (let edl = generateEDL ''Silence Removed'' clipName clips frameRate secs;
                       calls = [shown, Ffprobe (path vi), WriteFile dest edl]
                   in if writeFile_ok e then (calls, Inr True) else (calls, Inl WriteFailed))))"

section \<open>Notions of the specification\<close>

text \<open>A two-digit field of a timecode: \<^verbatim>\<open>n.toString().padStart(2, '0')\<close> for a natural number.\<close>

definition pad2 :: "nat \<Rightarrow> string" where
  "pad2 n = padStart 2 (show_nat n)"

text \<open>The pattern \<^verbatim>\<open>^\d{2}:\d{2}:\d{2}:\d{2}$\<close>.\<close>

definition matches_timecode_pattern :: "string \<Rightarrow> bool" where
  "matches_timecode_pattern s =
     (length s = 11 \<and>
      is_digit (s ! 0) \<and> is_digit (s ! 1) \<and> s ! 2 = CHR '':'' \<and>
      is_digit (s ! 3) \<and> is_digit (s ! 4) \<and> s ! 5 = CHR '':'' \<and>
      is_digit (s ! 6) \<and> is_digit (s ! 7) \<and> s ! 8 = CHR '':'' \<and>
      is_digit (s ! 9) \<and> is_digit (s ! 10))"










text \<open>The header of an edit decision list with the given title.\<close>

definition edl_header :: "string \<Rightarrow> string" where
  "edl_header title = ''TITLE: '' @ title @ [CHR 0x0A] @ ''FCM: NON-DROP FRAME'' @ [CHR 0x0A, CHR 0x0A]"

text \<open>The calls that touch the file system, and the texts handed to \<^verbatim>\<open>writeFile\<close>.\<close>

fun touches_files :: "call \<Rightarrow> bool" where
  "touches_files (Mkdir _) = True"
| "touches_files (WriteFile _ _) = True"
| "touches_files _ = False"

fun written :: "call list \<Rightarrow> string list" where
  "written [] = []"
| "written (WriteFile _ text # cs) = text # written cs"
| "written (_ # cs) = written cs"

text \<open>Concrete collaborators and inputs, for the examples.\<close>

definition example_probe :: probe_data where
  "example_probe =
     \<lparr>streams = [\<lparr>codec_type = Some ''audio'', stream_timecode = None, start_time = Some (Fin 0)\<rparr>,
                 \<lparr>codec_type = Some ''video'', stream_timecode = Some ''01:00:00:00'', start_time = Some (Fin 0)\<rparr>],
      format_timecode = None\<rparr>"

definition example_env :: env where
  "example_env =
     \<lparr>dialog_answer = \<lparr>canceled = False, filePath = Some ''/out/cut.edl''\<rparr>,
      ffprobe = (\<lambda>_. Inr example_probe),
      mkdir_error = None,
      writeFile_ok = True,
      number_other = (\<lambda>_. NaN),
      path_join = (\<lambda>a b. a @ ''/'' @ b),
      js2xml = (\<lambda>d. format_name d)\<rparr>"

definition example_video :: videoInfo where
  "example_video = \<lparr>path = ''/media/take1.mov'', duration = Fin 100\<rparr>"

definition example_clips :: "clip list" where
  "example_clips = [\<lparr>clip_start = Fin 2, clip_end = Fin 5\<rparr>, \<lparr>clip_start = Fin 10, clip_end = Fin 12\<rparr>]"

section \<open>Digits, padding and splitting\<close>

lemma digit_char_props:
  assumes "d < 10"
  shows "is_digit (digit_char d)" and "digit_val (digit_char d) = d"
    and "digit_char d \<noteq> CHR '':''" and "digit_char d \<noteq> CHR '';''"
proof -
  from assms have "d \<in> {0, 1, 2, 3, 4, 5, 6, 7, 8, 9}" by auto
  then show "is_digit (digit_char d)" and "digit_val (digit_char d) = d"
    and "digit_char d \<noteq> CHR '':''" and "digit_char d \<noteq> CHR '';''"
    by (auto simp: digit_char_def is_digit_def digit_val_def)
qed


lemma show_nat_digits: "list_all is_digit (show_nat n)"
proof (induction n rule: show_nat.induct)
  case (1 n)
  show ?case
  proof (cases "n < 10")
    case True
    then show ?thesis by (subst show_nat.simps) (simp add: digit_char_props)
  next
    case False
    then have "list_all is_digit (show_nat (n div 10))" using 1 by simp
    moreover have "is_digit (digit_char (n mod 10))" by (simp add: digit_char_props)
    ultimately show ?thesis using False by (subst show_nat.simps) simp
  qed
qed



lemma show_nat_nonempty: "show_nat n \<noteq> []"
  by (subst show_nat.simps) simp


lemma is_digit_zero: "is_digit CHR ''0''"
  by (simp add: is_digit_def)

lemma padStart_digits: "list_all is_digit s \<Longrightarrow> list_all is_digit (padStart k s)"
  by (auto simp: padStart_def list_all_iff is_digit_zero)


lemma frac_digits_zero: "frac_digits k 0 = []"
  by (cases k) simp_all

lemma js_toString_nat: "js_toString (Fin (of_nat n)) = show_nat n"
  by (simp add: Let_def frac_digits_zero)






section \<open>Arithmetic on frame counts\<close>

lemma js_floor_nat: "js_floor (Fin (of_nat n)) = Fin (of_nat n)"
  by simp

lemma js_floor_div_nat:
  "0 < b \<Longrightarrow> js_floor (js_div (Fin (of_nat a)) (Fin (of_nat b))) = Fin (of_nat (a div b))"
  by (simp add: floor_divide_of_nat_eq)

lemma js_rem_nat:
  assumes "0 < b"
  shows "js_rem (Fin (of_nat a)) (Fin (of_nat b)) = Fin (of_nat (a mod b))"
proof -
  have "trunc (of_nat a / of_nat b) = int (a div b)"
    by (simp add: trunc_def floor_divide_of_nat_eq)
  moreover have "(of_nat a :: real) - of_nat b * of_nat (a div b) = of_nat (a mod b)"
  proof -
    have "(of_nat a :: real) = of_nat (b * (a div b) + a mod b)" by simp
    then show ?thesis by (simp only: of_nat_add of_nat_mult)
  qed
  ultimately show ?thesis using assms by simp
qed

lemma framesToTimecode_nat:
  assumes r: "js_round frameRate = Fin (of_nat fps)" and pos: "0 < fps"
  shows "framesToTimecode (Fin (of_nat f)) frameRate =
     pad2 (f div (3600 * fps)) @ '':'' @ pad2 (f mod (3600 * fps) div (60 * fps)) @ '':'' @
     pad2 (f mod (3600 * fps) mod (60 * fps) div fps) @ '':'' @
     pad2 (f mod (3600 * fps) mod (60 * fps) mod fps)"
proof -
  have m1: "js_mul (Fin 3600) (Fin (of_nat fps)) = Fin (of_nat (3600 * fps))" by simp
  have m2: "js_mul (Fin 60) (Fin (of_nat fps)) = Fin (of_nat (60 * fps))" by simp
  have p1: "0 < 3600 * fps" and p2: "0 < 60 * fps" using pos by simp_all
  show ?thesis
    unfolding framesToTimecode_def Let_def r m1 m2
      js_rem_nat[OF p1] js_rem_nat[OF p2] js_rem_nat[OF pos]
      js_floor_div_nat[OF p1] js_floor_div_nat[OF p2] js_floor_div_nat[OF pos]
      js_floor_nat js_toString_nat pad2_def
    by simp
qed


section \<open>Timecodes of natural frame counts\<close>






lemma supported_round:
  assumes "r \<in> set supported_rates"
  shows "\<exists>fps. js_round (Fin r) = Fin (of_nat fps) \<and> 0 < fps \<and> fps \<le> 60"
proof -
  from assms consider "r = 2997 / 125" | "r = 24" | "r = 25" | "r = 2997 / 100"
    | "r = 30" | "r = 50" | "r = 2997 / 50" | "r = 60"
    by (auto simp: supported_rates_def)
  then show ?thesis
  proof cases
    case 1 show ?thesis unfolding 1 by (intro exI[of _ 24]) simp
  next
    case 2 show ?thesis unfolding 2 by (intro exI[of _ 24]) simp
  next
    case 3 show ?thesis unfolding 3 by (intro exI[of _ 25]) simp
  next
    case 4 show ?thesis unfolding 4 by (intro exI[of _ 30]) simp
  next
    case 5 show ?thesis unfolding 5 by (intro exI[of _ 30]) simp
  next
    case 6 show ?thesis unfolding 6 by (intro exI[of _ 50]) simp
  next
    case 7 show ?thesis unfolding 7 by (intro exI[of _ 60]) simp
  next
    case 8 show ?thesis unfolding 8 by (intro exI[of _ 60]) simp
  qed
qed

section \<open>Claims\<close>



subsection \<open>The shape of a timecode\<close>

lemma length_show_nat_small: "n < 10 \<Longrightarrow> length (show_nat n) = 1"
  by (subst show_nat.simps) simp

lemma length_show_nat_two: "10 \<le> n \<Longrightarrow> n < 100 \<Longrightarrow> length (show_nat n) = 2"
  by (subst show_nat.simps) (simp add: length_show_nat_small)

lemma length_show_nat_ge2: "10 \<le> n \<Longrightarrow> 2 \<le> length (show_nat n)"
proof -
  assume "10 \<le> n"
  then have "show_nat n = show_nat (n div 10) @ [digit_char (n mod 10)]"
    by (subst show_nat.simps) simp
  moreover have "show_nat (n div 10) \<noteq> []" by (rule show_nat_nonempty)
  ultimately show ?thesis by (cases "show_nat (n div 10)") simp_all
qed

lemma length_show_nat_ge3: "100 \<le> n \<Longrightarrow> 3 \<le> length (show_nat n)"
proof -
  assume a: "100 \<le> n"
  then have "show_nat n = show_nat (n div 10) @ [digit_char (n mod 10)]"
    by (subst show_nat.simps) simp
  moreover from a have "2 \<le> length (show_nat (n div 10))"
    by (intro length_show_nat_ge2) simp
  ultimately show ?thesis by simp
qed

lemma length_pad2: "n < 100 \<Longrightarrow> length (pad2 n) = 2"
proof (cases "n < 10")
  case True
  then show ?thesis by (simp add: pad2_def padStart_def length_show_nat_small)
next
  case False
  assume "n < 100"
  with False show ?thesis by (simp add: pad2_def padStart_def length_show_nat_two)
qed

lemma length_pad2_big: "100 \<le> n \<Longrightarrow> 3 \<le> length (pad2 n)"
  using length_show_nat_ge3[of n] by (simp add: pad2_def padStart_def)

lemma pad2_digits: "list_all is_digit (pad2 n)"
  by (simp add: pad2_def padStart_digits show_nat_digits)

lemma pad2_two:
  assumes "n < 100"
  obtains x y where "pad2 n = [x, y]" "is_digit x" "is_digit y"
proof -
  from length_pad2[OF assms] obtain x y where xy: "pad2 n = [x, y]"
    by (auto simp: length_Suc_conv numeral_2_eq_2)
  with pad2_digits[of n] have "is_digit x" "is_digit y" by simp_all
  with xy that show ?thesis by blast
qed

lemma pattern_of_fields:
  assumes "h < 100" "m < 100" "s < 100" "fr < 100"
  shows "matches_timecode_pattern (pad2 h @ '':'' @ pad2 m @ '':'' @ pad2 s @ '':'' @ pad2 fr)"
proof -
  from assms(1) obtain a b where h: "pad2 h = [a, b]" "is_digit a" "is_digit b" by (rule pad2_two)
  from assms(2) obtain c d where m: "pad2 m = [c, d]" "is_digit c" "is_digit d" by (rule pad2_two)
  from assms(3) obtain e f where s: "pad2 s = [e, f]" "is_digit e" "is_digit f" by (rule pad2_two)
  from assms(4) obtain g i where fr: "pad2 fr = [g, i]" "is_digit g" "is_digit i" by (rule pad2_two)
  show ?thesis
    unfolding h(1) m(1) s(1) fr(1) matches_timecode_pattern_def
    using h(2,3) m(2,3) s(2,3) fr(2,3) by simp
qed

lemma pattern_needs_short_hours:
  assumes "100 \<le> h" "m < 100" "s < 100" "fr < 100"
  shows "\<not> matches_timecode_pattern (pad2 h @ '':'' @ pad2 m @ '':'' @ pad2 s @ '':'' @ pad2 fr)"
  using length_pad2_big[OF assms(1)] length_pad2[OF assms(2)] length_pad2[OF assms(3)]
    length_pad2[OF assms(4)]
  by (simp add: matches_timecode_pattern_def)

lemma field_bounds:
  fixes f fps :: nat
  assumes "0 < fps"
  shows "f mod (3600 * fps) div (60 * fps) < 60"
    and "f mod (3600 * fps) mod (60 * fps) div fps < 60"
    and "f mod (3600 * fps) mod (60 * fps) mod fps < fps"
proof -
  have "f mod (3600 * fps) < 60 * (60 * fps)" using assms by simp
  then show "f mod (3600 * fps) div (60 * fps) < 60" by (rule less_mult_imp_div_less)
  have "f mod (3600 * fps) mod (60 * fps) < 60 * fps" using assms by simp
  then show "f mod (3600 * fps) mod (60 * fps) div fps < 60" by (rule less_mult_imp_div_less)
  show "f mod (3600 * fps) mod (60 * fps) mod fps < fps" using assms by simp
qed

lemma hours_bound:
  fixes f fps :: nat
  assumes "0 < fps"
  shows "f div (3600 * fps) < 100 \<longleftrightarrow> f < 360000 * fps"
proof -
  have "f div (3600 * fps) < 100 \<longleftrightarrow> f < 100 * (3600 * fps)"
    using assms by (simp add: div_less_iff_less_mult)
  then show ?thesis by simp
qed


text \<open>
  C7, as the code has it. For every non-negative integer frame count \<open>f\<close> and every
  supported frame rate \<open>r\<close>, the string of \<open>framesToTimecode\<close> matches
  \<^verbatim>\<open>^\d{2}:\d{2}:\d{2}:\d{2}$\<close> exactly when \<open>f\<close> is below one hundred hours of frames,
  \<open>f < 360000 * round r\<close>: \<^verbatim>\<open>padStart(2, '0')\<close> pads a short field and leaves a longer
  one as it is, so from one hundred hours on the hours field has three digits or more.
\<close>

theorem timecode_pattern_below_100_hours:
  assumes "r \<in> set supported_rates"
  shows "matches_timecode_pattern (framesToTimecode (Fin (of_nat f)) (Fin r))
     \<longleftrightarrow> real f < 360000 * real_of_int \<lfloor>r + 1 / 2\<rfloor>"
proof -
  from supported_round[OF assms] obtain fps where
    r: "js_round (Fin r) = Fin (of_nat fps)" and pos: "0 < fps" and le: "fps \<le> 60" by blast
  from r have "real_of_int \<lfloor>r + 1 / 2\<rfloor> = real fps" by simp
  then have b: "real f < 360000 * real_of_int \<lfloor>r + 1 / 2\<rfloor> \<longleftrightarrow> f < 360000 * fps"
    by (simp only: of_nat_less_iff[symmetric, where ?'a = real] of_nat_mult of_nat_numeral)
  note fb = field_bounds[OF pos, of f]
  have m: "f mod (3600 * fps) div (60 * fps) < 100" using fb(1) by simp
  have s: "f mod (3600 * fps) mod (60 * fps) div fps < 100" using fb(2) by simp
  have fr: "f mod (3600 * fps) mod (60 * fps) mod fps < 100" using fb(3) le by simp
  show ?thesis
  proof (cases "f < 360000 * fps")
    case True
    then have "f div (3600 * fps) < 100" using hours_bound[OF pos] by simp
    from pattern_of_fields[OF this m s fr] True show ?thesis
      unfolding framesToTimecode_nat[OF r pos] b by simp
  next
    case False
    then have "100 \<le> f div (3600 * fps)" using hours_bound[OF pos, of f] by simp
    from pattern_needs_short_hours[OF this m s fr] False show ?thesis
      unfolding framesToTimecode_nat[OF r pos] b by simp
  qed
qed

theorem timecode_pattern_below_100_hours_witness:
  "(24::real) \<in> set supported_rates \<and>
   (matches_timecode_pattern (framesToTimecode (Fin (of_nat 90061)) (Fin 24))
      \<longleftrightarrow> real 90061 < 360000 * real_of_int \<lfloor>(24::real) + 1 / 2\<rfloor>) \<and>
   real 90061 < 360000 * real_of_int \<lfloor>(24::real) + 1 / 2\<rfloor>"
  using timecode_pattern_below_100_hours[of 24 90061]
  by (simp add: supported_rates_def)

text \<open>
  C7 as stated fails: at 24 frames per second the frame count 8640000 (one hundred
  hours) gives \<^verbatim>\<open>100:00:00:00\<close>, which the pattern rejects.
\<close>

theorem timecode_pattern_counterexample:
  "framesToTimecode (Fin 8640000) (Fin 24) = ''100:00:00:00'' \<and>
   \<not> matches_timecode_pattern (framesToTimecode (Fin 8640000) (Fin 24))"
  by code_simp


subsection \<open>Frame counts that are not natural numbers\<close>









subsection \<open>The table of frame durations\<close>

lemma table_pairs:
  "map parseInt10 (split_on (\<lambda>c. c = CHR ''/'') ''1001/24000s'') = [Fin 1001, Fin 24000]"
  "map parseInt10 (split_on (\<lambda>c. c = CHR ''/'') ''100/2400s'') = [Fin 100, Fin 2400]"
  "map parseInt10 (split_on (\<lambda>c. c = CHR ''/'') ''1/25s'') = [Fin 1, Fin 25]"
  "map parseInt10 (split_on (\<lambda>c. c = CHR ''/'') ''1001/30000s'') = [Fin 1001, Fin 30000]"
  "map parseInt10 (split_on (\<lambda>c. c = CHR ''/'') ''1/30s'') = [Fin 1, Fin 30]"
  "map parseInt10 (split_on (\<lambda>c. c = CHR ''/'') ''1/50s'') = [Fin 1, Fin 50]"
  "map parseInt10 (split_on (\<lambda>c. c = CHR ''/'') ''1001/60000s'') = [Fin 1001, Fin 60000]"
  "map parseInt10 (split_on (\<lambda>c. c = CHR ''/'') ''1/60s'') = [Fin 1, Fin 60]"
  by (simp_all add: parseInt10_def dec_val_def is_digit_def digit_val_def)

lemma pair_of_duration:
  "map parseInt10 (split_on (\<lambda>c. c = CHR ''/'') (frameRateToFrameDuration frameRate)) = [n, d]
   \<Longrightarrow> frame_duration_pair frameRate = (n, d)"
  by (simp add: frame_duration_pair_def nth_num_def)

lemma duration_default:
  assumes "frameRate \<notin> Fin ` set supported_rates"
  shows "frameRateToFrameDuration frameRate = ''1001/24000s''"
proof -
  from assms have "frameRate \<noteq> Fin (23976 / 1000)" "frameRate \<noteq> Fin 24" "frameRate \<noteq> Fin 25"
    "frameRate \<noteq> Fin (2997 / 100)" "frameRate \<noteq> Fin 30" "frameRate \<noteq> Fin 50"
    "frameRate \<noteq> Fin (5994 / 100)" "frameRate \<noteq> Fin 60"
    unfolding supported_rates_def by auto
  then show ?thesis unfolding frameRateToFrameDuration_def by (simp only: if_False)
qed

text \<open>
  C9. \<open>frameRateToFrameDuration\<close> maps each supported nominal rate to exactly the
  listed pair: 23.976 to (1001, 24000), 24 to (100, 2400) (not reduced), 25 to (1, 25),
  29.97 to (1001, 30000), 30 to (1, 30), 50 to (1, 50), 59.94 to (1001, 60000),
  60 to (1, 60); for every frame rate outside this set (48, but also NaN or an
  infinity) it returns the entry of 23.976, (1001, 24000). The pair is what
  \<open>generateFCPXML\<close> reads from the string with \<^verbatim>\<open>split\<close> and \<^verbatim>\<open>parseInt\<close>.
\<close>

theorem frame_duration_table:
  "frameRateToFrameDuration (Fin (23976 / 1000)) = ''1001/24000s'' \<and>
   frame_duration_pair (Fin (23976 / 1000)) = (Fin 1001, Fin 24000) \<and>
   frameRateToFrameDuration (Fin 24) = ''100/2400s'' \<and>
   frame_duration_pair (Fin 24) = (Fin 100, Fin 2400) \<and>
   frameRateToFrameDuration (Fin 25) = ''1/25s'' \<and>
   frame_duration_pair (Fin 25) = (Fin 1, Fin 25) \<and>
   frameRateToFrameDuration (Fin (2997 / 100)) = ''1001/30000s'' \<and>
   frame_duration_pair (Fin (2997 / 100)) = (Fin 1001, Fin 30000) \<and>
   frameRateToFrameDuration (Fin 30) = ''1/30s'' \<and>
   frame_duration_pair (Fin 30) = (Fin 1, Fin 30) \<and>
   frameRateToFrameDuration (Fin 50) = ''1/50s'' \<and>
   frame_duration_pair (Fin 50) = (Fin 1, Fin 50) \<and>
   frameRateToFrameDuration (Fin (5994 / 100)) = ''1001/60000s'' \<and>
   frame_duration_pair (Fin (5994 / 100)) = (Fin 1001, Fin 60000) \<and>
   frameRateToFrameDuration (Fin 60) = ''1/60s'' \<and>
   frame_duration_pair (Fin 60) = (Fin 1, Fin 60) \<and>
   (\<forall>frameRate. frameRate \<notin> Fin ` set supported_rates \<longrightarrow>
      frameRateToFrameDuration frameRate = ''1001/24000s'' \<and>
      frame_duration_pair frameRate = (Fin 1001, Fin 24000))"
proof -
  have s1: "frameRateToFrameDuration (Fin (23976 / 1000)) = ''1001/24000s''"
    by (simp add: frameRateToFrameDuration_def)
  have s2: "frameRateToFrameDuration (Fin 24) = ''100/2400s''"
    by (simp add: frameRateToFrameDuration_def)
  have s3: "frameRateToFrameDuration (Fin 25) = ''1/25s''"
    by (simp add: frameRateToFrameDuration_def)
  have s4: "frameRateToFrameDuration (Fin (2997 / 100)) = ''1001/30000s''"
    by (simp add: frameRateToFrameDuration_def)
  have s5: "frameRateToFrameDuration (Fin 30) = ''1/30s''"
    by (simp add: frameRateToFrameDuration_def)
  have s6: "frameRateToFrameDuration (Fin 50) = ''1/50s''"
    by (simp add: frameRateToFrameDuration_def)
  have s7: "frameRateToFrameDuration (Fin (5994 / 100)) = ''1001/60000s''"
    by (simp add: frameRateToFrameDuration_def)
  have s8: "frameRateToFrameDuration (Fin 60) = ''1/60s''"
    by (simp add: frameRateToFrameDuration_def)
  have p1: "frame_duration_pair (Fin (23976 / 1000)) = (Fin 1001, Fin 24000)"
    by (rule pair_of_duration) (simp only: s1 table_pairs)
  have p2: "frame_duration_pair (Fin 24) = (Fin 100, Fin 2400)"
    by (rule pair_of_duration) (simp only: s2 table_pairs)
  have p3: "frame_duration_pair (Fin 25) = (Fin 1, Fin 25)"
    by (rule pair_of_duration) (simp only: s3 table_pairs)
  have p4: "frame_duration_pair (Fin (2997 / 100)) = (Fin 1001, Fin 30000)"
    by (rule pair_of_duration) (simp only: s4 table_pairs)
  have p5: "frame_duration_pair (Fin 30) = (Fin 1, Fin 30)"
    by (rule pair_of_duration) (simp only: s5 table_pairs)
  have p6: "frame_duration_pair (Fin 50) = (Fin 1, Fin 50)"
    by (rule pair_of_duration) (simp only: s6 table_pairs)
  have p7: "frame_duration_pair (Fin (5994 / 100)) = (Fin 1001, Fin 60000)"
    by (rule pair_of_duration) (simp only: s7 table_pairs)
  have p8: "frame_duration_pair (Fin 60) = (Fin 1, Fin 60)"
    by (rule pair_of_duration) (simp only: s8 table_pairs)
  have d: "frameRateToFrameDuration frameRate = ''1001/24000s'' \<and>
      frame_duration_pair frameRate = (Fin 1001, Fin 24000)"
    if "frameRate \<notin> Fin ` set supported_rates" for frameRate
  proof -
    have a: "frameRateToFrameDuration frameRate = ''1001/24000s''"
      using that by (rule duration_default)
    have "frame_duration_pair frameRate = (Fin 1001, Fin 24000)"
      by (rule pair_of_duration) (simp only: a table_pairs)
    with a show ?thesis by simp
  qed
  from s1 s2 s3 s4 s5 s6 s7 s8 p1 p2 p3 p4 p5 p6 p7 p8 d show ?thesis by blast
qed

theorem frame_duration_table_witness:
  "Fin 48 \<notin> Fin ` set supported_rates \<and>
   frameRateToFrameDuration (Fin 48) = ''1001/24000s'' \<and>
   frame_duration_pair (Fin 48) = (Fin 1001, Fin 24000)"
proof -
  have a: "Fin 48 \<notin> Fin ` set supported_rates" by (simp add: supported_rates_def)
  with frame_duration_table show ?thesis by blast
qed


subsection \<open>The start timecode\<close>











subsection \<open>The export entry points\<close>

text \<open>
  C6. When the user cancels the save dialog, or no path is chosen, both entry points
  \<open>createEDL\<close> and \<open>createFCPXML\<close> resolve with \<^verbatim>\<open>false\<close> (\<open>Inr False\<close>), which is
  not an error, and the only collaborator called is the dialog: neither \<^verbatim>\<open>mkdir\<close> nor
  \<^verbatim>\<open>writeFile\<close>. The outcome is distinguishable: with a chosen path an export never
  resolves with \<^verbatim>\<open>false\<close>.
\<close>

theorem cancel_is_no_export:
  "(canceled (dialog_answer e) \<or> filePath (dialog_answer e) = None \<longrightarrow>
      createEDL e title clips vi clipName frameRate
        = ([ShowSaveDialog title (basename (path vi) @ ''.edl'') ''EDL'' ''edl''], Inr False) \<and>
      createFCPXML e title clips vi clipName frameRate
        = ([ShowSaveDialog title (basename (path vi) @ ''.fcpxmld'') ''FCPXML 1.10'' ''fcpxmld''], Inr False) \<and>
      \<not> list_ex touches_files (fst (createEDL e title clips vi clipName frameRate)) \<and>
      \<not> list_ex touches_files (fst (createFCPXML e title clips vi clipName frameRate))) \<and>
   (\<not> (canceled (dialog_answer e) \<or> filePath (dialog_answer e) = None) \<longrightarrow>
      snd (createEDL e title clips vi clipName frameRate) \<noteq> Inr False \<and>
      snd (createFCPXML e title clips vi clipName frameRate) \<noteq> Inr False)"
proof (intro conjI impI)
  assume c: "canceled (dialog_answer e) \<or> filePath (dialog_answer e) = None"
  then show edl: "createEDL e title clips vi clipName frameRate
        = ([ShowSaveDialog title (basename (path vi) @ ''.edl'') ''EDL'' ''edl''], Inr False)"
    by (auto simp: createEDL_def Let_def split: bool.splits option.splits)
  from c show xml: "createFCPXML e title clips vi clipName frameRate
        = ([ShowSaveDialog title (basename (path vi) @ ''.fcpxmld'') ''FCPXML 1.10'' ''fcpxmld''], Inr False)"
    by (auto simp: createFCPXML_def Let_def split: bool.splits option.splits)
  show "\<not> list_ex touches_files (fst (createEDL e title clips vi clipName frameRate))"
    unfolding edl by simp
  show "\<not> list_ex touches_files (fst (createFCPXML e title clips vi clipName frameRate))"
    unfolding xml by simp
next
  assume "\<not> (canceled (dialog_answer e) \<or> filePath (dialog_answer e) = None)"
  then obtain dest where d: "canceled (dialog_answer e) = False" "filePath (dialog_answer e) = Some dest"
    by auto
  show "snd (createEDL e title clips vi clipName frameRate) \<noteq> Inr False"
    unfolding createEDL_def Let_def d by (simp split: sum.splits)
  show "snd (createFCPXML e title clips vi clipName frameRate) \<noteq> Inr False"
    unfolding createFCPXML_def Let_def d by (simp split: sum.splits)
qed


theorem cancel_is_no_export_witness:
  "(canceled (dialog_answer (example_env\<lparr>dialog_answer := \<lparr>canceled = True, filePath = Some ''/out/cut.edl''\<rparr>\<rparr>)) \<or>
    filePath (dialog_answer (example_env\<lparr>dialog_answer := \<lparr>canceled = True, filePath = Some ''/out/cut.edl''\<rparr>\<rparr>)) = None) \<and>
   createEDL (example_env\<lparr>dialog_answer := \<lparr>canceled = True, filePath = Some ''/out/cut.edl''\<rparr>\<rparr>)
      ''Export'' example_clips example_video ''take1'' (Fin 30)
     = ([ShowSaveDialog ''Export'' ''take1.mov.edl'' ''EDL'' ''edl''], Inr False) \<and>
   createFCPXML (example_env\<lparr>dialog_answer := \<lparr>canceled = True, filePath = Some ''/out/cut.edl''\<rparr>\<rparr>)
      ''Export'' example_clips example_video ''take1'' (Fin 30)
     = ([ShowSaveDialog ''Export'' ''take1.mov.fcpxmld'' ''FCPXML 1.10'' ''fcpxmld''], Inr False) \<and>
   \<not> (canceled (dialog_answer example_env) \<or> filePath (dialog_answer example_env) = None) \<and>
   snd (createEDL example_env ''Export'' example_clips example_video ''take1'' (Fin 30)) \<noteq> Inr False \<and>
   snd (createFCPXML example_env ''Export'' example_clips example_video ''take1'' (Fin 30)) \<noteq> Inr False"
proof -
  let ?e = "example_env\<lparr>dialog_answer := \<lparr>canceled = True, filePath = Some ''/out/cut.edl''\<rparr>\<rparr>"
  have c: "canceled (dialog_answer ?e) \<or> filePath (dialog_answer ?e) = None" by simp
  have n: "\<not> (canceled (dialog_answer example_env) \<or> filePath (dialog_answer example_env) = None)"
    by (simp add: example_env_def)
  have b: "basename (path example_video) = ''take1.mov''"
    by (simp add: basename_def example_video_def)
  note t1 = cancel_is_no_export[of ?e "''Export''" example_clips example_video "''take1''" "Fin 30"]
  note t2 = cancel_is_no_export[of example_env "''Export''" example_clips example_video "''take1''" "Fin 30"]
  from t1 c have "createEDL ?e ''Export'' example_clips example_video ''take1'' (Fin 30)
     = ([ShowSaveDialog ''Export'' (basename (path example_video) @ ''.edl'') ''EDL'' ''edl''], Inr False)"
    and "createFCPXML ?e ''Export'' example_clips example_video ''take1'' (Fin 30)
     = ([ShowSaveDialog ''Export'' (basename (path example_video) @ ''.fcpxmld'') ''FCPXML 1.10'' ''fcpxmld''], Inr False)"
    by blast+
  then have x: "createEDL ?e ''Export'' example_clips example_video ''take1'' (Fin 30)
     = ([ShowSaveDialog ''Export'' ''take1.mov.edl'' ''EDL'' ''edl''], Inr False)"
    and y: "createFCPXML ?e ''Export'' example_clips example_video ''take1'' (Fin 30)
     = ([ShowSaveDialog ''Export'' ''take1.mov.fcpxmld'' ''FCPXML 1.10'' ''fcpxmld''], Inr False)"
    unfolding b by simp_all
  from t2 n have z: "snd (createEDL example_env ''Export'' example_clips example_video ''take1'' (Fin 30)) \<noteq> Inr False"
    and w: "snd (createFCPXML example_env ''Export'' example_clips example_video ''take1'' (Fin 30)) \<noteq> Inr False"
    by blast+
  from c x y n z w show ?thesis by blast
qed

lemma generateEDL_header:
  "prefix (''TITLE: '' @ title @ [CHR 0x0A]) (generateEDL title sourceClipName clips frameRate timecodeInSeconds)"
  unfolding generateEDL_def by (simp add: prefix_def)

text \<open>
  C10. For every title argument, the document that \<open>createEDL\<close> writes begins with the
  fixed line \<^verbatim>\<open>TITLE: Silence Removed\<close>. The title is the label of the save dialog and
  nothing else: for any two titles, all other inputs equal, the calls after the dialog,
  the outcome and the text written are the same.
\<close>

theorem edl_title_is_fixed:
  "tl (fst (createEDL e title1 clips vi clipName frameRate))
     = tl (fst (createEDL e title2 clips vi clipName frameRate)) \<and>
   snd (createEDL e title1 clips vi clipName frameRate)
     = snd (createEDL e title2 clips vi clipName frameRate) \<and>
   written (fst (createEDL e title1 clips vi clipName frameRate))
     = written (fst (createEDL e title2 clips vi clipName frameRate)) \<and>
   (\<forall>edl \<in> set (written (fst (createEDL e title1 clips vi clipName frameRate))).
      prefix (''TITLE: Silence Removed'' @ [CHR 0x0A]) edl)"
proof (intro conjI ballI)
  show "tl (fst (createEDL e title1 clips vi clipName frameRate))
     = tl (fst (createEDL e title2 clips vi clipName frameRate))"
    by (simp add: createEDL_def Let_def split: bool.splits option.splits sum.splits)
  show "snd (createEDL e title1 clips vi clipName frameRate)
     = snd (createEDL e title2 clips vi clipName frameRate)"
    by (simp add: createEDL_def Let_def split: bool.splits option.splits sum.splits)
  show "written (fst (createEDL e title1 clips vi clipName frameRate))
     = written (fst (createEDL e title2 clips vi clipName frameRate))"
    by (simp add: createEDL_def Let_def split: bool.splits option.splits sum.splits)
next
  fix edl
  assume "edl \<in> set (written (fst (createEDL e title1 clips vi clipName frameRate)))"
  then obtain secs where "edl = generateEDL ''Silence Removed'' clipName clips frameRate secs"
    by (auto simp: createEDL_def Let_def split: bool.splits option.splits sum.splits if_splits)
  then show "prefix (''TITLE: Silence Removed'' @ [CHR 0x0A]) edl"
    using generateEDL_header[of "''Silence Removed''" clipName clips frameRate secs] by simp
qed


theorem edl_title_is_fixed_witness:
  "written (fst (createEDL example_env ''My cut'' example_clips example_video ''take1'' (Fin 30)))
     = [''TITLE: Silence Removed\<newline>FCM: NON-DROP FRAME\<newline>\<newline>001  AX       V     C        01:00:02:00 01:00:05:00 00:00:00:00 00:00:03:00\<newline>* FROM CLIP NAME: take1\<newline>\<newline>002  AX       V     C        01:00:10:00 01:00:12:00 00:00:03:00 00:00:05:00\<newline>* FROM CLIP NAME: take1\<newline>\<newline>''] \<and>
   written (fst (createEDL example_env ''Another title'' example_clips example_video ''take1'' (Fin 30)))
     = written (fst (createEDL example_env ''My cut'' example_clips example_video ''take1'' (Fin 30))) \<and>
   list_all (prefix (''TITLE: Silence Removed'' @ [CHR 0x0A]))
     (written (fst (createEDL example_env ''My cut'' example_clips example_video ''take1'' (Fin 30))))"
proof -
  have a: "written (fst (createEDL example_env ''My cut'' example_clips example_video ''take1'' (Fin 30)))
     = [''TITLE: Silence Removed\<newline>FCM: NON-DROP FRAME\<newline>\<newline>001  AX       V     C        01:00:02:00 01:00:05:00 00:00:00:00 00:00:03:00\<newline>* FROM CLIP NAME: take1\<newline>\<newline>002  AX       V     C        01:00:10:00 01:00:12:00 00:00:03:00 00:00:05:00\<newline>* FROM CLIP NAME: take1\<newline>\<newline>'']"
    by code_simp
  note t = edl_title_is_fixed[of example_env "''My cut''" example_clips example_video "''take1''" "Fin 30" "''Another title''"]
  from t have b: "written (fst (createEDL example_env ''Another title'' example_clips example_video ''take1'' (Fin 30)))
     = written (fst (createEDL example_env ''My cut'' example_clips example_video ''take1'' (Fin 30)))"
    by simp
  from t have c: "\<forall>edl \<in> set (written (fst (createEDL example_env ''My cut'' example_clips example_video ''take1'' (Fin 30)))).
      prefix (''TITLE: Silence Removed'' @ [CHR 0x0A]) edl"
    by blast
  from c have d: "list_all (prefix (''TITLE: Silence Removed'' @ [CHR 0x0A]))
     (written (fst (createEDL example_env ''My cut'' example_clips example_video ''take1'' (Fin 30))))"
    by (simp only: list_all_iff)
  from a b d show ?thesis by blast
qed

subsection \<open>The loops of the two generators\<close>

lemma edl_loop_records:
  "edl_loop sourceClipName frameRate timecodeInSeconds recordStartFrames index clips =
   concat (map (edl_text sourceClipName frameRate)
     (edl_records frameRate timecodeInSeconds recordStartFrames index clips))"
  by (induction clips arbitrary: recordStartFrames index) (simp_all add: Let_def)

lemma generateEDL_records:
  "generateEDL title sourceClipName clips frameRate timecodeInSeconds =
   edl_header title @ concat (map (edl_text sourceClipName frameRate)
     (edl_records frameRate timecodeInSeconds (Fin 0) 0 clips))"
  by (simp add: generateEDL_def edl_header_def edl_loop_records)

lemma length_edl_records:
  "length (edl_records frameRate timecodeInSeconds recordStartFrames index clips) = length clips"
  by (induction clips arbitrary: recordStartFrames index) (simp_all add: Let_def)


lemma length_spine_loop:
  "length (spine_loop numerator frameRate timecodeInSeconds sourceClipName offset clips) = length clips"
  by (induction clips arbitrary: offset) (simp_all add: Let_def)



lemma spine_generate:
  "spine (generateFCPXML pathToSource sourceClipName sourceDuration clips frameRate timecodeInSeconds) =
   spine_loop (fst (frame_duration_pair frameRate)) frameRate timecodeInSeconds sourceClipName (Fin 0) clips"
  by (simp add: generateFCPXML_def Let_def split: prod.splits)












lemma createEDL_outcome:
  "snd (createEDL e title clips vi clipName frameRate) = snd (createEDL e title [] vi clipName frameRate)"
  by (simp add: createEDL_def Let_def split: bool.splits option.splits sum.splits)

lemma createFCPXML_outcome:
  "snd (createFCPXML e title clips vi clipName frameRate) = snd (createFCPXML e title [] vi clipName frameRate)"
  by (simp add: createFCPXML_def Let_def split: bool.splits option.splits sum.splits)

subsection \<open>Claims on the generators\<close>





text \<open>
  C4, as the code has it. Neither generator and neither entry point looks at the order
  of \<^verbatim>\<open>start\<close> and \<^verbatim>\<open>end\<close>: every clip of the list, malformed or not, gives exactly one
  record of the EDL and one entry of the spine, and whether an export resolves, and
  with what, does not depend on the clip list. No clip and no export is rejected.
\<close>

theorem clips_are_not_validated:
  "generateEDL title sourceClipName clips frameRate timecodeInSeconds =
     edl_header title @ concat (map (edl_text sourceClipName frameRate)
       (edl_records frameRate timecodeInSeconds (Fin 0) 0 clips)) \<and>
   length (edl_records frameRate timecodeInSeconds (Fin 0) 0 clips) = length clips \<and>
   length (spine (generateFCPXML pathToSource sourceClipName sourceDuration clips frameRate timecodeInSeconds))
     = length clips \<and>
   snd (createEDL e title clips vi clipName frameRate) = snd (createEDL e title [] vi clipName frameRate) \<and>
   snd (createFCPXML e title clips vi clipName frameRate) = snd (createFCPXML e title [] vi clipName frameRate)"
proof (intro conjI)
  show "generateEDL title sourceClipName clips frameRate timecodeInSeconds =
     edl_header title @ concat (map (edl_text sourceClipName frameRate)
       (edl_records frameRate timecodeInSeconds (Fin 0) 0 clips))"
    by (rule generateEDL_records)
  show "length (edl_records frameRate timecodeInSeconds (Fin 0) 0 clips) = length clips"
    by (rule length_edl_records)
  show "length (spine (generateFCPXML pathToSource sourceClipName sourceDuration clips frameRate timecodeInSeconds))
     = length clips"
    unfolding spine_generate by (rule length_spine_loop)
  show "snd (createEDL e title clips vi clipName frameRate) = snd (createEDL e title [] vi clipName frameRate)"
    by (rule createEDL_outcome)
  show "snd (createFCPXML e title clips vi clipName frameRate) = snd (createFCPXML e title [] vi clipName frameRate)"
    by (rule createFCPXML_outcome)
qed

text \<open>
  C4 as stated fails: the clip from 5 s to 2 s is exported. \<open>createEDL\<close> resolves with
  \<^verbatim>\<open>true\<close> and writes a record with source in \<^verbatim>\<open>01:00:05:00\<close>, source out
  \<^verbatim>\<open>01:00:02:00\<close> and record out \<^verbatim>\<open>-1:-1:-3:00\<close>; the spine has the entry with duration
  \<open>-90\<close>, and \<open>createFCPXML\<close> resolves with \<^verbatim>\<open>true\<close> as well.
\<close>

theorem malformed_clip_counterexample:
  "createEDL example_env ''Export'' [\<lparr>clip_start = Fin 5, clip_end = Fin 2\<rparr>] example_video ''take1'' (Fin 30) =
     ([ShowSaveDialog ''Export'' ''take1.mov.edl'' ''EDL'' ''edl'',
       Ffprobe ''/media/take1.mov'',
       WriteFile ''/out/cut.edl''
         ''TITLE: Silence Removed\<newline>FCM: NON-DROP FRAME\<newline>\<newline>001  AX       V     C        01:00:05:00 01:00:02:00 00:00:00:00 -1:-1:-3:00\<newline>* FROM CLIP NAME: take1\<newline>\<newline>''],
      Inr True) \<and>
   generateEDL ''Silence Removed'' ''take1'' [\<lparr>clip_start = Fin 5, clip_end = Fin 2\<rparr>] (Fin 30) (Fin 0) =
     ''TITLE: Silence Removed\<newline>FCM: NON-DROP FRAME\<newline>\<newline>001  AX       V     C        00:00:05:00 00:00:02:00 00:00:00:00 -1:-1:-3:00\<newline>* FROM CLIP NAME: take1\<newline>\<newline>'' \<and>
   spine (generateFCPXML ''/media/take1.mov'' ''take1'' (Fin 100)
      [\<lparr>clip_start = Fin 5, clip_end = Fin 2\<rparr>] (Fin 30) (Fin 0)) =
     [\<lparr>ac_offset = Fin 0, ac_duration = Fin (- 90), ac_name = ''take1'', ac_start = Fin 150\<rparr>] \<and>
   snd (createFCPXML example_env ''Export'' [\<lparr>clip_start = Fin 5, clip_end = Fin 2\<rparr>] example_video ''take1'' (Fin 30))
     = Inr True"
proof -
  have a: "createEDL example_env ''Export'' [\<lparr>clip_start = Fin 5, clip_end = Fin 2\<rparr>] example_video ''take1'' (Fin 30) =
     ([ShowSaveDialog ''Export'' ''take1.mov.edl'' ''EDL'' ''edl'',
       Ffprobe ''/media/take1.mov'',
       WriteFile ''/out/cut.edl''
         ''TITLE: Silence Removed\<newline>FCM: NON-DROP FRAME\<newline>\<newline>001  AX       V     C        01:00:05:00 01:00:02:00 00:00:00:00 -1:-1:-3:00\<newline>* FROM CLIP NAME: take1\<newline>\<newline>''],
      Inr True)"
    by code_simp
  have b: "generateEDL ''Silence Removed'' ''take1'' [\<lparr>clip_start = Fin 5, clip_end = Fin 2\<rparr>] (Fin 30) (Fin 0) =
     ''TITLE: Silence Removed\<newline>FCM: NON-DROP FRAME\<newline>\<newline>001  AX       V     C        00:00:05:00 00:00:02:00 00:00:00:00 -1:-1:-3:00\<newline>* FROM CLIP NAME: take1\<newline>\<newline>''"
    by code_simp
  have c: "spine (generateFCPXML ''/media/take1.mov'' ''take1'' (Fin 100)
      [\<lparr>clip_start = Fin 5, clip_end = Fin 2\<rparr>] (Fin 30) (Fin 0)) =
     [\<lparr>ac_offset = Fin 0, ac_duration = Fin (- 90), ac_name = ''take1'', ac_start = Fin 150\<rparr>]"
    by code_simp
  have d: "snd (createFCPXML example_env ''Export'' [\<lparr>clip_start = Fin 5, clip_end = Fin 2\<rparr>] example_video ''take1'' (Fin 30))
     = Inr True"
    by code_simp
  from a b c d show ?thesis by (intro conjI)
qed





end
